theory Spec2Isabelle
  imports Complex_Main
begin

section \<open>Numba notebook: the four numeric procedures\<close>

text \<open>
  The notebook \<^verbatim>\<open>Numba/Numba.ipynb\<close> defines \<^verbatim>\<open>monte_carlo_pi\<close>, \<^verbatim>\<open>go_slow\<close> /
  \<^verbatim>\<open>go_fast\<close>, \<^verbatim>\<open>gradient\<close>, and \<^verbatim>\<open>logistic_regression_no_jit\<close> /
  \<^verbatim>\<open>logistic_regression\<close>. Each body is embedded below with the semantics of Python and
  NumPy: exceptions are values of a sum type, loops over \<^verbatim>\<open>range\<close> are recursions over the
  list of indices, arrays passed by reference live in an explicit heap.

  Array elements and scalars are real numbers: a float64 is read as the real it denotes,
  so rounding, overflow to infinity and NaN are outside this development.
\<close>

subsection \<open>Exceptions, ranges\<close>

text \<open>
  \<open>IndexError ax i n\<close> is NumPy's "index i is out of bounds for axis ax with size n";
  \<open>ValueError\<close> is raised for shapes that are not aligned or cannot be broadcast;
  \<open>ZeroDivisionError\<close> by a scalar division by zero.
\<close>

datatype py_error = IndexError nat int nat | ValueError | ZeroDivisionError

text \<open>\<^verbatim>\<open>range(n)\<close>: the integers \<open>0, \<dots>, n - 1\<close>, empty when \<open>n \<le> 0\<close>.\<close>

definition py_range :: "int \<Rightarrow> int list" where
  "py_range n = map int [0..<nat n]"

subsection \<open>Two-dimensional arrays\<close>

text \<open>
  A two-dimensional ndarray in row-major order: \<^verbatim>\<open>a.shape[0]\<close>, \<^verbatim>\<open>a.shape[1]\<close> and the
  buffer of \<open>shape0 * shape1\<close> elements.
\<close>

record ndarray2 =
  shape0 :: nat
  shape1 :: nat
  buf :: "real list"

definition wf_ndarray2 :: "ndarray2 \<Rightarrow> bool" where
  "wf_ndarray2 a \<longleftrightarrow> length (buf a) = shape0 a * shape1 a"

definition elem :: "ndarray2 \<Rightarrow> nat \<Rightarrow> nat \<Rightarrow> real" where
  "elem a r c = buf a ! (r * shape1 a + c)"

text \<open>
  An integer index on one axis: a negative index counts from the end, anything outside
  \<open>-n \<le> i < n\<close> for an axis of size \<open>n\<close> raises.
\<close>

definition norm_index :: "nat \<Rightarrow> nat \<Rightarrow> int \<Rightarrow> py_error + nat" where
  "norm_index ax n i =
     (if 0 \<le> i \<and> i < int n then Inr (nat i)
      else if - int n \<le> i \<and> i < 0 then Inr (nat (i + int n))
      else Inl (IndexError ax i n))"

text \<open>\<^verbatim>\<open>a[i, j]\<close>: axis 0 is checked first, then axis 1.\<close>

definition getitem2 :: "ndarray2 \<Rightarrow> int \<Rightarrow> int \<Rightarrow> py_error + real" where
  "getitem2 a i j =
     (case norm_index 0 (shape0 a) i of
        Inl e \<Rightarrow> Inl e
      | Inr r \<Rightarrow>
          (case norm_index 1 (shape1 a) j of
             Inl e \<Rightarrow> Inl e
           | Inr c \<Rightarrow> Inr (elem a r c)))"

subsection \<open>Example 2: the matrix reduction \<^verbatim>\<open>go_slow\<close>\<close>

text \<open>
  \<^verbatim>\<open>
  def go_slow(a):
      trace = 0
      for i in range(a.shape[0] - 1):
          trace += np.tanh(a[i, i + 1])
      return trace
  \<close>
  \<open>go_loop\<close> is the \<^verbatim>\<open>for\<close> loop over the remaining indices with the running \<open>trace\<close>;
  an exception raised by the subscript ends the loop and the call.
  \<^verbatim>\<open>go_fast\<close> has the same body under \<^verbatim>\<open>@jit(nopython=True)\<close>; it is embedded after
  \<open>go_slow\<close>.
\<close>

fun go_loop :: "ndarray2 \<Rightarrow> int list \<Rightarrow> real \<Rightarrow> py_error + real" where
  "go_loop a [] trace = Inr trace"
| "go_loop a (i # rest) trace =
     (case getitem2 a i (i + 1) of
        Inl e \<Rightarrow> Inl e
      | Inr v \<Rightarrow> go_loop a rest (trace + tanh v))"

definition go_slow :: "ndarray2 \<Rightarrow> py_error + real" where
  "go_slow a = go_loop a (py_range (int (shape0 a) - 1)) 0"





text \<open>The subscripts the loop of \<open>go_slow\<close> and \<open>go_fast\<close> asks for, in order.\<close>

definition go_subscripts :: "ndarray2 \<Rightarrow> (int \<times> int) list" where
  "go_subscripts a = map (\<lambda>i. (i, i + 1)) (py_range (int (shape0 a) - 1))"

definition in_bounds :: "ndarray2 \<Rightarrow> int \<times> int \<Rightarrow> bool" where
  "in_bounds a ij \<longleftrightarrow>
     - int (shape0 a) \<le> fst ij \<and> fst ij < int (shape0 a) \<and>
     - int (shape1 a) \<le> snd ij \<and> snd ij < int (shape1 a)"

subsection \<open>Example 1: \<^verbatim>\<open>monte_carlo_pi\<close>\<close>

text \<open>
  The process-wide generator behind \<^verbatim>\<open>np.random.rand\<close> is an explicit state: the sequence
  of numbers it will produce and the position of the next one. Which numbers it produces
  is NumPy's business; every property below holds for any sequence.
\<close>

record rng =
  draws :: "nat \<Rightarrow> real"
  pos :: nat

text \<open>\<^verbatim>\<open>np.random.rand(2)\<close>: the next two numbers of the generator.\<close>

definition random_rand2 :: "rng \<Rightarrow> (real \<times> real) \<times> rng" where
  "random_rand2 g = ((draws g (pos g), draws g (pos g + 1)), g\<lparr>pos := pos g + 2\<rparr>)"

text \<open>\<^verbatim>\<open>np.linalg.norm(vec)\<close> of a vector of two components.\<close>

definition linalg_norm :: "real \<times> real \<Rightarrow> real" where
  "linalg_norm vec = sqrt ((fst vec)\<^sup>2 + (snd vec)\<^sup>2)"

text \<open>
  \<^verbatim>\<open>
  def monte_carlo_pi(n_samples=1000):
      acc = 0
      for sample in range(n_samples):
          vec = np.random.rand(2)
          if np.linalg.norm(vec) < 1.:
              acc += 1
      return 4.0 * acc / n_samples
  \<close>
  The division is a scalar division: it raises \<^verbatim>\<open>ZeroDivisionError\<close> when
  \<^verbatim>\<open>n_samples\<close> is \<open>0\<close>. The generator's state is returned with the result.

  The function is compiled for a signed 64-bit \<^verbatim>\<open>n_samples\<close>. The body below is written
  over the mathematical integers and does not represent the refusal of a count that does
  not fit (nor the \<^verbatim>\<open>OverflowError\<close> of the interpreter when a count of more than 1024 bits
  is converted to a float); \<open>fits_int64\<close> marks the counts the compiled function takes,
  and statements about which counts raise are made for those.
\<close>

fun mc_loop :: "int list \<Rightarrow> rng \<Rightarrow> int \<Rightarrow> int \<times> rng" where
  "mc_loop [] g acc = (acc, g)"
| "mc_loop (sample # rest) g acc =
     (case random_rand2 g of
        (vec, g') \<Rightarrow> mc_loop rest g' (if linalg_norm vec < 1 then acc + 1 else acc))"

definition monte_carlo_pi :: "rng \<Rightarrow> int \<Rightarrow> (py_error + real) \<times> rng" where
  "monte_carlo_pi g n_samples =
     (case mc_loop (py_range n_samples) g 0 of
        (acc, g') \<Rightarrow>
          (if n_samples = 0 then Inl ZeroDivisionError
           else Inr (4 * real_of_int acc / real_of_int n_samples), g'))"

definition fits_int64 :: "int \<Rightarrow> bool" where
  "fits_int64 n \<longleftrightarrow> - (2 ^ 63) \<le> n \<and> n < 2 ^ 63"

text \<open>
  In the specification's words: of the first \<open>n\<close> points the generator gives from its
  current position, the number that fall strictly inside the unit circle.
\<close>

definition inside_count :: "rng \<Rightarrow> nat \<Rightarrow> nat" where
  "inside_count g n =
     length (filter (\<lambda>i. sqrt ((draws g (pos g + 2 * i))\<^sup>2 + (draws g (pos g + 2 * i + 1))\<^sup>2) < 1)
       [0..<n])"

subsection \<open>One-dimensional arrays and the NumPy operations of the solvers\<close>

type_synonym ndarray1 = "real list"

text \<open>
  \<^verbatim>\<open>X.dot(v)\<close>, \<^verbatim>\<open>np.dot(X, v)\<close> for a two-dimensional \<open>X\<close> and a one-dimensional \<open>v\<close>:
  the last axis of \<open>X\<close> must have the length of \<open>v\<close>.
\<close>

definition dot21 :: "ndarray2 \<Rightarrow> ndarray1 \<Rightarrow> py_error + ndarray1" where
  "dot21 a v =
     (if shape1 a = length v
      then Inr (map (\<lambda>i. sum_list (map (\<lambda>j. elem a i j * v ! j) [0..<shape1 a])) [0..<shape0 a])
      else Inl ValueError)"

text \<open>\<^verbatim>\<open>np.dot(v, X)\<close> for a one-dimensional \<open>v\<close> and a two-dimensional \<open>X\<close>.\<close>

definition dot12 :: "ndarray1 \<Rightarrow> ndarray2 \<Rightarrow> py_error + ndarray1" where
  "dot12 v a =
     (if length v = shape0 a
      then Inr (map (\<lambda>j. sum_list (map (\<lambda>i. v ! i * elem a i j) [0..<shape0 a])) [0..<shape1 a])
      else Inl ValueError)"

text \<open>\<^verbatim>\<open>X.T\<close>: the transposed array (read only by the solvers).\<close>

definition ndarray_T :: "ndarray2 \<Rightarrow> ndarray2" where
  "ndarray_T a =
     \<lparr>shape0 = shape1 a, shape1 = shape0 a,
      buf = concat (map (\<lambda>j. map (\<lambda>i. elem a i j) [0..<shape0 a]) [0..<shape1 a])\<rparr>"

text \<open>
  An elementwise binary operation on one-dimensional arrays, with NumPy's broadcasting:
  equal lengths, or one operand of length 1 that is stretched.
\<close>

definition broadcast :: "(real \<Rightarrow> real \<Rightarrow> real) \<Rightarrow> ndarray1 \<Rightarrow> ndarray1 \<Rightarrow> py_error + ndarray1" where
  "broadcast f u v =
     (if length u = length v then Inr (map2 f u v)
      else if length u = 1 then Inr (map (f (hd u)) v)
      else if length v = 1 then Inr (map (\<lambda>x. f x (hd v)) u)
      else Inl ValueError)"

text \<open>
  \<^verbatim>\<open>w -= v\<close>, the new contents of \<open>w\<close>: the result is written into \<open>w\<close>, so \<open>v\<close> is
  broadcast to the shape of \<open>w\<close> and never the other way round.
\<close>

definition isub :: "ndarray1 \<Rightarrow> ndarray1 \<Rightarrow> py_error + ndarray1" where
  "isub w v =
     (if length v = length w then Inr (map2 (-) w v)
      else if length v = 1 then Inr (map (\<lambda>x. x - hd v) w)
      else Inl ValueError)"

subsection \<open>The heap\<close>

text \<open>
  Python passes arrays by reference and \<^verbatim>\<open>w -= ...\<close> writes into the array \<open>w\<close> refers
  to. A heap gives every reference its array; the two-dimensional and the one-dimensional
  arrays are kept apart. The arrays an expression builds on the way are values: nothing
  else refers to them. Two references share memory only when they are equal: a view into
  part of another array (a row of \<open>X\<close> passed as \<open>w\<close>, say) is not represented.
\<close>

type_synonym ref = nat

record heap =
  arrays2 :: "ref \<Rightarrow> ndarray2"
  arrays1 :: "ref \<Rightarrow> ndarray1"

subsection \<open>Example 3: \<^verbatim>\<open>gradient\<close>\<close>

text \<open>
  \<^verbatim>\<open>
  @jit(nopython=True)
  def gradient(X, y, w, step_size=0.01,  max_iter=1000):
      for k in range(max_iter):
          w -=  step_size * (X.T.dot(X.dot(w) - y))
      return w
  \<close>
  \<open>gradient_body\<close> is one execution of the loop body, \<open>gradient_loop\<close> the loop. The call
  returns the reference \<open>w\<close> it was given. The caller supplies \<open>step_size\<close> and
  \<open>max_iter\<close>; the defaults \<open>0.01\<close> and \<open>1000\<close> are two such values.
\<close>

definition gradient_body :: "heap \<Rightarrow> ref \<Rightarrow> ref \<Rightarrow> ref \<Rightarrow> real \<Rightarrow> py_error + heap" where
  "gradient_body h X y w step_size =
     (case dot21 (arrays2 h X) (arrays1 h w) of
        Inl e \<Rightarrow> Inl e
      | Inr Xw \<Rightarrow>
     (case broadcast (-) Xw (arrays1 h y) of
        Inl e \<Rightarrow> Inl e
      | Inr r \<Rightarrow>
     (case dot21 (ndarray_T (arrays2 h X)) r of
        Inl e \<Rightarrow> Inl e
      | Inr g \<Rightarrow>
     (case isub (arrays1 h w) (map ((*) step_size) g) of
        Inl e \<Rightarrow> Inl e
      | Inr w' \<Rightarrow> Inr (h\<lparr>arrays1 := (arrays1 h)(w := w')\<rparr>)))))"

fun gradient_loop :: "int list \<Rightarrow> heap \<Rightarrow> ref \<Rightarrow> ref \<Rightarrow> ref \<Rightarrow> real \<Rightarrow> py_error + heap" where
  "gradient_loop [] h X y w step_size = Inr h"
| "gradient_loop (k # rest) h X y w step_size =
     (case gradient_body h X y w step_size of
        Inl e \<Rightarrow> Inl e
      | Inr h' \<Rightarrow> gradient_loop rest h' X y w step_size)"

definition gradient :: "heap \<Rightarrow> ref \<Rightarrow> ref \<Rightarrow> ref \<Rightarrow> real \<Rightarrow> int \<Rightarrow> py_error + ref \<times> heap" where
  "gradient h X y w step_size max_iter =
     (case gradient_loop (py_range max_iter) h X y w step_size of
        Inl e \<Rightarrow> Inl e
      | Inr h' \<Rightarrow> Inr (w, h'))"

subsection \<open>Example 4: \<^verbatim>\<open>logistic_regression\<close>\<close>

text \<open>
  \<^verbatim>\<open>
  @jit(nopython=True)
  def logistic_regression(y, X, w, iterations=1000):
      for i in range(iterations):
          w -= np.dot(((1.0 / (1.0 + np.exp(-y * np.dot(X, w))) - 1.0) * y), X)
      return w
  \<close>
  \<^verbatim>\<open>logistic_regression_no_jit\<close> has the same body without the decorator; the array
  operations of this body (\<^verbatim>\<open>np.dot\<close>, broadcasting, the in-place subtraction) check shapes
  in nopython mode as NumPy does, so one loop serves both. The operations
  between an array and a scalar (\<^verbatim>\<open>np.exp\<close>, \<^verbatim>\<open>1.0 + _\<close>, \<^verbatim>\<open>1.0 / _\<close>, \<^verbatim>\<open>_ - 1.0\<close>)
  and the negation act on each element and cannot raise; the denominator \<open>1 + exp z\<close> is
  positive.
\<close>

definition logistic_body :: "heap \<Rightarrow> ref \<Rightarrow> ref \<Rightarrow> ref \<Rightarrow> py_error + heap" where
  "logistic_body h y X w =
     (case dot21 (arrays2 h X) (arrays1 h w) of
        Inl e \<Rightarrow> Inl e
      | Inr Xw \<Rightarrow>
     (case broadcast (*) (map uminus (arrays1 h y)) Xw of
        Inl e \<Rightarrow> Inl e
      | Inr m \<Rightarrow>
     (case broadcast (*)
             (map (\<lambda>q. q - 1) (map (\<lambda>d. 1 / d) (map (\<lambda>e. 1 + e) (map exp m)))) (arrays1 h y) of
        Inl e \<Rightarrow> Inl e
      | Inr c \<Rightarrow>
     (case dot12 c (arrays2 h X) of
        Inl e \<Rightarrow> Inl e
      | Inr g \<Rightarrow>
     (case isub (arrays1 h w) g of
        Inl e \<Rightarrow> Inl e
      | Inr w' \<Rightarrow> Inr (h\<lparr>arrays1 := (arrays1 h)(w := w')\<rparr>))))))"

fun logistic_loop :: "int list \<Rightarrow> heap \<Rightarrow> ref \<Rightarrow> ref \<Rightarrow> ref \<Rightarrow> py_error + heap" where
  "logistic_loop [] h y X w = Inr h"
| "logistic_loop (i # rest) h y X w =
     (case logistic_body h y X w of
        Inl e \<Rightarrow> Inl e
      | Inr h' \<Rightarrow> logistic_loop rest h' y X w)"

definition logistic_regression :: "heap \<Rightarrow> ref \<Rightarrow> ref \<Rightarrow> ref \<Rightarrow> int \<Rightarrow> py_error + ref \<times> heap" where
  "logistic_regression h y X w iterations =
     (case logistic_loop (py_range iterations) h y X w of
        Inl e \<Rightarrow> Inl e
      | Inr h' \<Rightarrow> Inr (w, h'))"


subsection \<open>The update rules in the specification's words\<close>

text \<open>
  Plain linear algebra on the elements, with no shape checks: \<open>Xv\<close>, \<open>X\<^sup>tr\<close> (which is
  also \<open>r\<^sup>tX\<close>), the difference and the elementwise product of two vectors.
\<close>

definition mat_vec :: "ndarray2 \<Rightarrow> real list \<Rightarrow> real list" where
  "mat_vec X v = map (\<lambda>i. \<Sum>j<shape1 X. elem X i j * v ! j) [0..<shape0 X]"

definition matT_vec :: "ndarray2 \<Rightarrow> real list \<Rightarrow> real list" where
  "matT_vec X r = map (\<lambda>j. \<Sum>i<shape0 X. elem X i j * r ! i) [0..<shape1 X]"

definition vec_minus :: "real list \<Rightarrow> real list \<Rightarrow> real list" where
  "vec_minus u v = map (\<lambda>i. u ! i - v ! i) [0..<length u]"

definition hadamard :: "real list \<Rightarrow> real list \<Rightarrow> real list" where
  "hadamard u v = map (\<lambda>i. u ! i * v ! i) [0..<length u]"

text \<open>\<open>w - s \<cdot> X\<^sup>t(Xw - y)\<close>\<close>

definition gd_update :: "ndarray2 \<Rightarrow> real list \<Rightarrow> real \<Rightarrow> real list \<Rightarrow> real list" where
  "gd_update X y s w = vec_minus w (map ((*) s) (matT_vec X (vec_minus (mat_vec X w) y)))"

text \<open>\<open>w - (((1 / (1 + exp(-y \<odot> (Xw)))) - 1) \<odot> y)\<^sup>tX\<close>\<close>

definition lr_update :: "ndarray2 \<Rightarrow> real list \<Rightarrow> real list \<Rightarrow> real list" where
  "lr_update X y w =
     vec_minus w
       (matT_vec X
          (hadamard (map (\<lambda>z. 1 / (1 + exp z) - 1) (hadamard (map uminus y) (mat_vec X w))) y))"

text \<open>
  The assignments \<open>w \<leftarrow> gd_update X y s w\<close> and \<open>w \<leftarrow> lr_update X y w\<close> on a heap, each
  array read at its reference.
\<close>

definition gd_assign :: "ref \<Rightarrow> ref \<Rightarrow> ref \<Rightarrow> real \<Rightarrow> heap \<Rightarrow> heap" where
  "gd_assign X y w s h =
     h\<lparr>arrays1 := (arrays1 h)(w := gd_update (arrays2 h X) (arrays1 h y) s (arrays1 h w))\<rparr>"

definition lr_assign :: "ref \<Rightarrow> ref \<Rightarrow> ref \<Rightarrow> heap \<Rightarrow> heap" where
  "lr_assign y X w h =
     h\<lparr>arrays1 := (arrays1 h)(w := lr_update (arrays2 h X) (arrays1 h y) (arrays1 h w))\<rparr>"

text \<open>The shapes of the data model: \<open>X\<close> is \<open>n \<times> p\<close>, \<open>y\<close> has length \<open>n\<close>, \<open>w\<close> length \<open>p\<close>.\<close>

definition shapes_agree :: "heap \<Rightarrow> ref \<Rightarrow> ref \<Rightarrow> ref \<Rightarrow> bool" where
  "shapes_agree h X y w \<longleftrightarrow>
     shape0 (arrays2 h X) = length (arrays1 h y) \<and> shape1 (arrays2 h X) = length (arrays1 h w)"

subsection \<open>The finite range of float64\<close>

text \<open>
  Reading a float64 as the real it denotes is sound while every number that occurs is
  finite. \<open>float64_max\<close> is the largest finite float64. \<open>no_overflow\<close> says of one
  iteration of \<open>gradient\<close> that the elements of \<open>X\<close>, \<open>y\<close> and \<open>w\<close> are finite and that
  no product or partial sum of \<open>Xw\<close>, no element of \<open>Xw - y\<close> and no product or partial sum
  of \<open>X\<^sup>t(Xw - y)\<close> leaves the finite range, in whatever order a dot product is summed: the
  absolute values of the products of each dot product add up to at most \<open>float64_max\<close>.
  Outside it float64 arithmetic gives infinities and, from \<open>0 * inf\<close>, NaN.
\<close>

definition float64_max :: real where
  "float64_max = (2 - 1 / 2 ^ 52) * 2 ^ 1023"

definition no_overflow :: "heap \<Rightarrow> ref \<Rightarrow> ref \<Rightarrow> ref \<Rightarrow> bool" where
  "no_overflow h X y w \<longleftrightarrow>
     (let A = arrays2 h X; wv = arrays1 h w; yv = arrays1 h y;
          r = vec_minus (mat_vec A wv) yv
      in list_all (\<lambda>x. \<bar>x\<bar> \<le> float64_max) (buf A @ yv @ wv) \<and>
         list_all (\<lambda>i. (\<Sum>j<shape1 A. \<bar>elem A i j * wv ! j\<bar>) \<le> float64_max) [0..<shape0 A] \<and>
         list_all (\<lambda>i. \<bar>r ! i\<bar> \<le> float64_max) [0..<shape0 A] \<and>
         list_all (\<lambda>j. (\<Sum>i<shape0 A. \<bar>elem A i j * r ! i\<bar>) \<le> float64_max) [0..<shape1 A])"

subsection \<open>Concrete inputs used in the examples below\<close>

text \<open>The \<open>3 \<times> 3\<close> array \<open>[[0, 1, 2], [3, 4, 5], [6, 7, 8]]\<close> of the notebook's kind.\<close>

definition arange_3x3 :: ndarray2 where
  "arange_3x3 = \<lparr>shape0 = 3, shape1 = 3, buf = [0, 1, 2, 3, 4, 5, 6, 7, 8]\<rparr>"

text \<open>The one-row array \<open>[[0, 1, 2]]\<close> and the \<open>2 \<times> 1\<close> array \<open>[[1], [2]]\<close>.\<close>

definition one_row :: ndarray2 where
  "one_row = \<lparr>shape0 = 1, shape1 = 3, buf = [0, 1, 2]\<rparr>"

definition two_by_one :: ndarray2 where
  "two_by_one = \<lparr>shape0 = 2, shape1 = 1, buf = [1, 2]\<rparr>"

text \<open>A generator whose first point is \<open>(0, 0)\<close> and whose later points are \<open>(1, 1)\<close>.\<close>

definition sample_rng :: rng where
  "sample_rng = \<lparr>draws = (\<lambda>i. if i < 2 then 0 else 1), pos = 0\<rparr>"

text \<open>
  A heap for the solvers: every two-dimensional reference holds the \<open>2 \<times> 1\<close> matrix
  \<open>[[1], [2]]\<close>, reference \<open>0\<close> the labels \<open>[1, -1]\<close>, every other one-dimensional
  reference the initial weights \<open>[0]\<close>.
\<close>

definition example_heap :: heap where
  "example_heap =
     \<lparr>arrays2 = (\<lambda>r. \<lparr>shape0 = 2, shape1 = 1, buf = [1, 2]\<rparr>),
      arrays1 = (\<lambda>r. if r = 0 then [1, - 1] else [0])\<rparr>"


text \<open>
  A heap of finite numbers on which float64 overflows: the \<open>1 \<times> 1\<close> matrix
  \<open>[[float64_max]]\<close>, \<open>y = [0]\<close> at reference \<open>0\<close> and \<open>w = [2]\<close> at every other reference.
\<close>

definition huge_heap :: heap where
  "huge_heap =
     \<lparr>arrays2 = (\<lambda>r. \<lparr>shape0 = 1, shape1 = 1, buf = [float64_max]\<rparr>),
      arrays1 = (\<lambda>r. if r = 0 then [0] else [2])\<rparr>"

section \<open>Properties of the matrix reduction\<close>

lemma py_range_nonpos: "n \<le> 0 \<Longrightarrow> py_range n = []"
  by (simp add: py_range_def)

lemma getitem2_in_bounds:
  "r < shape0 a \<Longrightarrow> c < shape1 a \<Longrightarrow> getitem2 a (int r) (int c) = Inr (elem a r c)"
  by (simp add: getitem2_def norm_index_def)

lemma getitem2_Inr_iff: "(\<exists>v. getitem2 a i j = Inr v) \<longleftrightarrow> in_bounds a (i, j)"
  by (auto simp: getitem2_def norm_index_def in_bounds_def split: sum.splits)

lemma go_loop_append:
  "go_loop a (xs @ ys) t =
     (case go_loop a xs t of Inl e \<Rightarrow> Inl e | Inr t' \<Rightarrow> go_loop a ys t')"
  by (induction xs arbitrary: t) (auto split: sum.splits)

text \<open>While row and column stay inside the array the loop adds up the \<open>tanh\<close> values.\<close>

lemma go_loop_in_bounds:
  "n \<le> shape0 a \<Longrightarrow> n \<le> shape1 a - 1 \<Longrightarrow>
   go_loop a (map int [0..<n]) t = Inr (t + (\<Sum>i<n. tanh (elem a i (i + 1))))"
proof (induction n)
  case 0
  then show ?case by simp
next
  case (Suc n)
  have "getitem2 a (int n) (int n + 1) = Inr (elem a n (n + 1))"
    using Suc.prems getitem2_in_bounds [of n a "n + 1"] by (simp add: add.commute)
  with Suc show ?case
    by (simp add: go_loop_append add.assoc)
qed

lemma go_slow_wide:
  assumes "shape0 a \<le> shape1 a"
  shows "go_slow a = Inr (\<Sum>i<shape0 a - 1. tanh (elem a i (i + 1)))"
  using go_loop_in_bounds [of "shape0 a - 1" a 0] assms
  by (simp add: go_slow_def py_range_def nat_diff_distrib')

text \<open>
  With more rows than columns the loop reaches row \<open>shape1 a - 1\<close> (row \<open>0\<close> when there is
  no column at all), whose subscript names a column that does not exist.
\<close>

lemma go_slow_tall:
  assumes "2 \<le> shape0 a" "shape1 a < shape0 a"
  shows "go_slow a = Inl (IndexError 1 (int (max 1 (shape1 a))) (shape1 a))"
proof -
  define c where "c = shape1 a - 1"
  have c: "c < shape0 a - 1" "c \<le> shape0 a" "c \<le> shape1 a - 1"
    using assms by (auto simp: c_def)
  have split: "[0..<shape0 a - 1] = [0..<c] @ c # [Suc c..<shape0 a - 1]"
    using c(1) upt_add_eq_append [of 0 c "shape0 a - 1 - c"] by (simp add: upt_conv_Cons)
  have fail: "getitem2 a (int c) (int c + 1) =
      Inl (IndexError 1 (int (max 1 (shape1 a))) (shape1 a))"
    using c assms by (auto simp: getitem2_def norm_index_def c_def max_def)
  have "go_slow a = go_loop a (map int [0..<shape0 a - 1]) 0"
    by (simp add: go_slow_def py_range_def nat_diff_distrib')
  also have "\<dots> = go_loop a (map int [0..<c] @ int c # map int [Suc c..<shape0 a - 1]) 0"
    by (subst split) simp
  also have "\<dots> = Inl (IndexError 1 (int (max 1 (shape1 a))) (shape1 a))"
    using go_loop_in_bounds [OF c(2) c(3), of 0] fail
    by (simp only: go_loop_append go_loop.simps sum.case)
  finally show ?thesis .
qed

lemma go_subscripts_upt:
  "go_subscripts a = map (\<lambda>i. (int i, int i + 1)) [0..<shape0 a - 1]"
  by (simp add: go_subscripts_def py_range_def nat_diff_distrib')

lemma go_subscripts_in_bounds_iff:
  assumes "2 \<le> shape0 a"
  shows "(\<forall>ij \<in> set (go_subscripts a). in_bounds a ij) \<longleftrightarrow> shape0 a \<le> shape1 a"
proof
  assume all: "\<forall>ij \<in> set (go_subscripts a). in_bounds a ij"
  have "shape0 a - 2 \<in> set [0..<shape0 a - 1]"
    using assms by auto
  then have "(int (shape0 a - 2), int (shape0 a - 2) + 1) \<in> set (go_subscripts a)"
    unfolding go_subscripts_upt set_map by (rule imageI)
  with all have "in_bounds a (int (shape0 a - 2), int (shape0 a - 2) + 1)"
    by blast
  then show "shape0 a \<le> shape1 a"
    using assms by (simp add: in_bounds_def)
next
  assume "shape0 a \<le> shape1 a"
  then show "\<forall>ij \<in> set (go_subscripts a). in_bounds a ij"
    by (auto simp: go_subscripts_upt in_bounds_def)
qed

text \<open>
  C3 (amended). For every well-formed two-dimensional array with at least 2 rows and at
  least as many columns as rows, \<open>go_slow\<close> returns the sum over \<open>i\<close> from \<open>0\<close> to
  \<open>rows - 2\<close> of \<open>tanh (a[i, i + 1])\<close>; on \<open>[[0, 1, 2], [3, 4, 5], [6, 7, 8]]\<close> it returns
  \<open>tanh 1 + tanh 5\<close>.
\<close>

theorem go_slow_sum_tanh:
  "(wf_ndarray2 a \<and> 2 \<le> shape0 a \<and> shape0 a \<le> shape1 a \<longrightarrow>
      go_slow a = Inr (\<Sum>i = 0..shape0 a - 2. tanh (elem a i (i + 1)))) \<and>
   go_slow arange_3x3 = Inr (tanh 1 + tanh 5)"
proof (intro conjI impI)
  assume a: "wf_ndarray2 a \<and> 2 \<le> shape0 a \<and> shape0 a \<le> shape1 a"
  then have "{..<shape0 a - 1} = {0..shape0 a - 2}"
    by auto
  with a show "go_slow a = Inr (\<Sum>i = 0..shape0 a - 2. tanh (elem a i (i + 1)))"
    by (simp add: go_slow_wide)
next
  show "go_slow arange_3x3 = Inr (tanh 1 + tanh 5)"
    by (simp add: arange_3x3_def go_slow_def py_range_def getitem2_def norm_index_def
        elem_def upt_rec)
qed

theorem go_slow_sum_tanh_witness:
  "wf_ndarray2 arange_3x3 \<and> 2 \<le> shape0 arange_3x3 \<and> shape0 arange_3x3 \<le> shape1 arange_3x3 \<and>
   go_slow arange_3x3 = Inr (\<Sum>i = 0..shape0 arange_3x3 - 2. tanh (elem arange_3x3 i (i + 1)))"
  using go_slow_sum_tanh [of arange_3x3]
  by (simp add: arange_3x3_def wf_ndarray2_def)

text \<open>
  C3 as stated fails: the array \<open>[[1], [2]]\<close> has 2 rows, and the call raises on the
  subscript \<open>a[0, 1]\<close> instead of returning a sum.
\<close>

theorem go_slow_two_by_one_counterexample:
  "wf_ndarray2 two_by_one \<and> 2 \<le> shape0 two_by_one \<and>
   go_slow two_by_one = Inl (IndexError 1 1 1)"
  by (simp add: two_by_one_def wf_ndarray2_def go_slow_def py_range_def getitem2_def
      norm_index_def)

text \<open>
  C5 (amended). An array with fewer than two rows gives an empty range: no subscript is
  evaluated, and the call returns the initial \<open>trace = 0\<close>.
\<close>

theorem go_slow_fewer_than_2_rows:
  "shape0 a < 2 \<Longrightarrow> go_subscripts a = [] \<and> go_slow a = Inr 0"
  by (simp add: go_slow_def go_subscripts_def py_range_nonpos)

theorem go_slow_fewer_than_2_rows_witness:
  "shape0 one_row < 2 \<and> go_subscripts one_row = [] \<and> go_slow one_row = Inr 0"
  using go_slow_fewer_than_2_rows [of one_row]
  by (simp add: one_row_def)

text \<open>
  C5 as stated fails: on the one-row array \<open>[[0, 1, 2]]\<close> the call returns \<open>0\<close> and does
  not raise.
\<close>

theorem go_slow_one_row_counterexample:
  "shape0 one_row = 1 \<and> go_slow one_row = Inr 0"
  by (simp add: one_row_def go_slow_def py_range_def)

text \<open>
  C10. For an array with at least 2 rows, all subscripts \<open>a[i, i + 1]\<close> of the loop are in
  bounds exactly when there are at least as many columns as rows, and exactly then the call
  returns a value; with more rows than columns the call ends in an \<^verbatim>\<open>IndexError\<close> on
  axis 1, the columns.
\<close>

theorem go_slow_in_bounds_iff:
  "2 \<le> shape0 a \<Longrightarrow>
     ((\<forall>ij \<in> set (go_subscripts a). in_bounds a ij) \<longleftrightarrow> shape0 a \<le> shape1 a) \<and>
     ((\<exists>v. go_slow a = Inr v) \<longleftrightarrow> shape0 a \<le> shape1 a) \<and>
     (shape1 a < shape0 a \<longrightarrow>
        go_slow a = Inl (IndexError 1 (int (max 1 (shape1 a))) (shape1 a)))"
proof (intro conjI impI)
  assume "2 \<le> shape0 a"
  then show "(\<forall>ij \<in> set (go_subscripts a). in_bounds a ij) \<longleftrightarrow> shape0 a \<le> shape1 a"
    by (rule go_subscripts_in_bounds_iff)
next
  assume "2 \<le> shape0 a"
  then show "(\<exists>v. go_slow a = Inr v) \<longleftrightarrow> shape0 a \<le> shape1 a"
    using go_slow_wide [of a] go_slow_tall [of a] by (cases "shape0 a \<le> shape1 a") auto
next
  assume "2 \<le> shape0 a" "shape1 a < shape0 a"
  then show "go_slow a = Inl (IndexError 1 (int (max 1 (shape1 a))) (shape1 a))"
    by (rule go_slow_tall)
qed

theorem go_slow_in_bounds_iff_witness:
  "2 \<le> shape0 two_by_one \<and> shape1 two_by_one < shape0 two_by_one \<and>
   \<not> in_bounds two_by_one (0, 1) \<and> go_slow two_by_one = Inl (IndexError 1 1 1) \<and>
   2 \<le> shape0 arange_3x3 \<and> shape0 arange_3x3 \<le> shape1 arange_3x3 \<and>
   in_bounds arange_3x3 (0, 1) \<and> in_bounds arange_3x3 (1, 2) \<and>
   go_subscripts arange_3x3 = [(0, 1), (1, 2)]"
  using go_slow_in_bounds_iff [of two_by_one] go_slow_in_bounds_iff [of arange_3x3]
  by (simp add: two_by_one_def arange_3x3_def in_bounds_def go_subscripts_def py_range_def
      upt_rec)

subsection \<open>The compiled variant\<close>











section \<open>Properties of the Monte Carlo estimator\<close>

lemma inside_count_Suc:
  "inside_count g (Suc n) =
     (if linalg_norm (fst (random_rand2 g)) < 1 then 1 else 0) +
     inside_count (snd (random_rand2 g)) n"
proof -
  have "[0..<Suc n] = 0 # map Suc [0..<n]"
    by (simp add: upt_conv_Cons map_Suc_upt del: upt_Suc)
  then show ?thesis
    by (simp add: inside_count_def random_rand2_def linalg_norm_def filter_map o_def
        add.assoc add.left_commute add.commute del: upt_Suc)
qed

lemma inside_count_le: "inside_count g n \<le> n"
  using length_filter_le [of _ "[0..<n]"] by (simp add: inside_count_def)

lemma mc_loop_count:
  "mc_loop xs g acc =
     (acc + int (inside_count g (length xs)), g\<lparr>pos := pos g + 2 * length xs\<rparr>)"
proof (induction xs arbitrary: g acc)
  case Nil
  show ?case by (simp add: inside_count_def)
next
  case (Cons x xs)
  obtain vec g' where r: "random_rand2 g = (vec, g')"
    by (cases "random_rand2 g")
  then have g': "g' = g\<lparr>pos := pos g + 2\<rparr>"
    by (auto simp: random_rand2_def)
  show ?case
    using r inside_count_Suc [of g "length xs"]
    by (simp add: Cons.IH g')
qed

lemma monte_carlo_pi_eq:
  "monte_carlo_pi g n =
     (if n = 0 then Inl ZeroDivisionError
      else Inr (4 * real (inside_count g (nat n)) / real_of_int n),
      g\<lparr>pos := pos g + 2 * nat n\<rparr>)"
  by (simp add: monte_carlo_pi_def mc_loop_count py_range_def)

text \<open>
  C4. For \<open>n \<ge> 1\<close>, \<open>monte_carlo_pi\<close> takes \<open>n\<close> points (\<open>2n\<close> numbers) from the generator,
  and returns \<open>4 \<times> (count / n)\<close> where \<open>count\<close> is the number of those points with norm
  strictly below 1; the returned value lies in \<open>[0, 4]\<close>. That the generator's numbers are
  independent and uniform is a property of NumPy, not of this function.
\<close>

theorem monte_carlo_pi_estimate:
  "1 \<le> n \<Longrightarrow>
     monte_carlo_pi g n =
       (Inr (4 * (real (inside_count g (nat n)) / real_of_int n)),
        g\<lparr>pos := pos g + 2 * nat n\<rparr>) \<and>
     (\<exists>v. fst (monte_carlo_pi g n) = Inr v \<and> 0 \<le> v \<and> v \<le> 4)"
proof -
  assume n: "1 \<le> n"
  have "real (inside_count g (nat n)) \<le> real_of_int n"
    using inside_count_le [of g "nat n"] n by linarith
  then have "4 * real (inside_count g (nat n)) / real_of_int n \<le> 4"
    using n by (simp add: divide_le_eq)
  moreover have "0 \<le> 4 * real (inside_count g (nat n)) / real_of_int n"
    using n by simp
  ultimately show ?thesis
    using n by (simp add: monte_carlo_pi_eq)
qed

theorem monte_carlo_pi_estimate_witness:
  "(1::int) \<le> 2 \<and> inside_count sample_rng 2 = 1 \<and>
   monte_carlo_pi sample_rng 2 = (Inr 2, sample_rng\<lparr>pos := 4\<rparr>)"
  using monte_carlo_pi_estimate [of 2 sample_rng]
  by (simp add: sample_rng_def inside_count_def upt_rec)

text \<open>
  C6 (amended). For a sample count \<open>n\<close> that fits a signed 64-bit integer,
  \<open>monte_carlo_pi\<close> raises exactly when \<open>n = 0\<close>, and then it is the division by zero; for
  \<open>n < 0\<close> the loop does not run, no number is drawn and the result is \<open>4 \<times> 0 / n = 0\<close>.
\<close>

theorem monte_carlo_pi_errors:
  "fits_int64 n \<Longrightarrow>
     ((\<exists>e. fst (monte_carlo_pi g n) = Inl e) \<longleftrightarrow> n = 0) \<and>
     (n = 0 \<longrightarrow> monte_carlo_pi g n = (Inl ZeroDivisionError, g)) \<and>
     (n < 0 \<longrightarrow> monte_carlo_pi g n = (Inr 0, g))"
  by (simp add: monte_carlo_pi_eq inside_count_def)

theorem monte_carlo_pi_errors_witness:
  "fits_int64 (- 1) \<and> fits_int64 0 \<and>
   monte_carlo_pi sample_rng (- 1) = (Inr 0, sample_rng) \<and>
   monte_carlo_pi sample_rng 0 = (Inl ZeroDivisionError, sample_rng)"
proof -
  have f: "fits_int64 (- 1)" "fits_int64 0"
    by (simp_all add: fits_int64_def)
  from monte_carlo_pi_errors [OF f(1), of sample_rng]
    monte_carlo_pi_errors [OF f(2), of sample_rng] f
  show ?thesis by simp
qed

text \<open>
  C6 as stated fails: for \<open>n = -1\<close> nothing is divided by zero and the call returns \<open>0\<close>.
\<close>

theorem monte_carlo_pi_negative_counterexample:
  "(- 1 :: int) \<le> 0 \<and> monte_carlo_pi sample_rng (- 1) = (Inr 0, sample_rng)"
  by (simp add: monte_carlo_pi_def py_range_def)

section \<open>Properties of the solvers\<close>

lemma sum_list_upt: "sum_list (map f [0..<n]) = (\<Sum>i<n. f i)"
  by (simp add: interv_sum_list_conv_sum_set_nat atLeast0LessThan)

lemma concat_rows_nth:
  "j < m \<Longrightarrow> i < n \<Longrightarrow>
   concat (map (\<lambda>j. map (f j) [0..<n]) [0..<m]) ! (j * n + i) = f j i"
proof (induction m)
  case 0
  then show ?case by simp
next
  case (Suc m)
  have len: "length (concat (map (\<lambda>j. map (f j) [0..<n]) [0..<m])) = m * n"
    by (induction m) simp_all
  show ?case
  proof (cases "j < m")
    case True
    then have "Suc j \<le> m" by simp
    then have "Suc j * n \<le> m * n" by (rule mult_le_mono1)
    with Suc.prems have "j * n + i < m * n" by simp
    with True Suc show ?thesis by (simp add: nth_append len)
  next
    case False
    with Suc.prems have "j = m" by simp
    with Suc.prems show ?thesis by (simp add: nth_append len)
  qed
qed

lemma elem_ndarray_T:
  "i < shape0 a \<Longrightarrow> j < shape1 a \<Longrightarrow> elem (ndarray_T a) j i = elem a i j"
proof -
  assume ij: "i < shape0 a" "j < shape1 a"
  have "elem (ndarray_T a) j i =
      concat (map (\<lambda>j. map (\<lambda>i. elem a i j) [0..<shape0 a]) [0..<shape1 a]) ! (j * shape0 a + i)"
    unfolding elem_def [of "ndarray_T a"] by (simp add: ndarray_T_def)
  also have "\<dots> = elem a i j"
    by (rule concat_rows_nth [OF ij(2) ij(1)])
  finally show ?thesis .
qed

lemma dot21_mat_vec: "shape1 a = length v \<Longrightarrow> dot21 a v = Inr (mat_vec a v)"
  by (simp add: dot21_def mat_vec_def sum_list_upt)

lemma dot21_T_matT_vec: "shape0 a = length r \<Longrightarrow> dot21 (ndarray_T a) r = Inr (matT_vec a r)"
proof -
  assume "shape0 a = length r"
  moreover have "shape0 (ndarray_T a) = shape1 a" "shape1 (ndarray_T a) = shape0 a"
    by (simp_all add: ndarray_T_def)
  ultimately show ?thesis
    by (simp add: dot21_def matT_vec_def sum_list_upt elem_ndarray_T)
qed

lemma dot12_matT_vec: "length c = shape0 a \<Longrightarrow> dot12 c a = Inr (matT_vec a c)"
  by (simp add: dot12_def matT_vec_def sum_list_upt mult.commute)

lemma map2_nth: "length u = length v \<Longrightarrow> map2 f u v = map (\<lambda>i. f (u ! i) (v ! i)) [0..<length u]"
  by (rule nth_equalityI) simp_all

lemma broadcast_minus: "length u = length v \<Longrightarrow> broadcast (-) u v = Inr (vec_minus u v)"
  by (simp add: broadcast_def vec_minus_def map2_nth)

lemma broadcast_times: "length u = length v \<Longrightarrow> broadcast (*) u v = Inr (hadamard u v)"
  by (simp add: broadcast_def hadamard_def map2_nth)

lemma isub_vec_minus: "length v = length w \<Longrightarrow> isub w v = Inr (vec_minus w v)"
  by (simp add: isub_def vec_minus_def map2_nth)

lemma length_mat_vec [simp]: "length (mat_vec X v) = shape0 X"
  by (simp add: mat_vec_def)

lemma length_matT_vec [simp]: "length (matT_vec X v) = shape1 X"
  by (simp add: matT_vec_def)

lemma length_vec_minus [simp]: "length (vec_minus u v) = length u"
  by (simp add: vec_minus_def)

lemma length_hadamard [simp]: "length (hadamard u v) = length u"
  by (simp add: hadamard_def)

lemma length_gd_update [simp]: "length (gd_update X y s w) = length w"
  by (simp add: gd_update_def)

lemma length_lr_update [simp]: "length (lr_update X y w) = length w"
  by (simp add: lr_update_def)

lemma gradient_body_assign:
  "shapes_agree h X y w \<Longrightarrow> gradient_body h X y w s = Inr (gd_assign X y w s h)"
  by (simp add: shapes_agree_def gradient_body_def gd_assign_def gd_update_def
      dot21_mat_vec broadcast_minus dot21_T_matT_vec isub_vec_minus)

lemma logistic_body_assign:
  "shapes_agree h X y w \<Longrightarrow> logistic_body h y X w = Inr (lr_assign y X w h)"
  by (simp add: shapes_agree_def logistic_body_def lr_assign_def lr_update_def
      dot21_mat_vec broadcast_times dot12_matT_vec isub_vec_minus o_def)

lemma shapes_agree_gd_assign:
  "shapes_agree h X y w \<Longrightarrow> shapes_agree (gd_assign X y w s h) X y w"
  by (auto simp: shapes_agree_def gd_assign_def)

lemma shapes_agree_lr_assign:
  "shapes_agree h X y w \<Longrightarrow> shapes_agree (lr_assign y X w h) X y w"
  by (auto simp: shapes_agree_def lr_assign_def)

lemma gradient_loop_funpow:
  "shapes_agree h X y w \<Longrightarrow>
   gradient_loop ks h X y w s = Inr ((gd_assign X y w s ^^ length ks) h)"
proof (induction ks arbitrary: h)
  case Nil
  show ?case by simp
next
  case (Cons k ks)
  then show ?case
    by (simp add: gradient_body_assign shapes_agree_gd_assign funpow_swap1)
qed

lemma logistic_loop_funpow:
  "shapes_agree h X y w \<Longrightarrow>
   logistic_loop ks h y X w = Inr ((lr_assign y X w ^^ length ks) h)"
proof (induction ks arbitrary: h)
  case Nil
  show ?case by simp
next
  case (Cons k ks)
  then show ?case
    by (simp add: logistic_body_assign shapes_agree_lr_assign funpow_swap1)
qed

lemma length_py_range [simp]: "length (py_range n) = nat n"
  by (simp add: py_range_def)

lemma gd_assign_funpow_distinct:
  "y \<noteq> w \<Longrightarrow>
   (gd_assign X y w s ^^ n) h =
     h\<lparr>arrays1 := (arrays1 h)(w := (gd_update (arrays2 h X) (arrays1 h y) s ^^ n) (arrays1 h w))\<rparr>"
  by (induction n) (simp_all add: gd_assign_def)

lemma lr_assign_funpow_distinct:
  "y \<noteq> w \<Longrightarrow>
   (lr_assign y X w ^^ n) h =
     h\<lparr>arrays1 := (arrays1 h)(w := (lr_update (arrays2 h X) (arrays1 h y) ^^ n) (arrays1 h w))\<rparr>"
  by (induction n) (simp_all add: lr_assign_def)

text \<open>
  C1. With \<open>X\<close> of shape \<open>n \<times> p\<close>, \<open>y\<close> of length \<open>n\<close> and \<open>w\<close> of length \<open>p\<close>, a call of
  \<open>gradient\<close> with step size \<open>s\<close> and iteration count \<open>k\<close> raises nothing, performs the
  assignment \<open>w \<leftarrow> w - s \<cdot> X\<^sup>t(Xw - y)\<close> exactly \<open>k\<close> times (\<open>0\<close> times for a negative \<open>k\<close>),
  whatever the values, and returns \<open>w\<close>. When \<open>y\<close> and \<open>w\<close> are different arrays the final
  contents of \<open>w\<close> are the \<open>k\<close>-fold iterate of \<open>gd_update X y s\<close> on the initial contents.
\<close>

theorem gradient_k_updates:
  "shapes_agree h X y w \<Longrightarrow>
     gradient h X y w s k = Inr (w, (gd_assign X y w s ^^ nat k) h) \<and>
     (y \<noteq> w \<longrightarrow>
        gradient h X y w s k =
          Inr (w, h\<lparr>arrays1 := (arrays1 h)
                 (w := (gd_update (arrays2 h X) (arrays1 h y) s ^^ nat k) (arrays1 h w))\<rparr>))"
  by (simp add: gradient_def gradient_loop_funpow gd_assign_funpow_distinct)

text \<open>
  C2. With \<open>X\<close> of shape \<open>n \<times> p\<close>, \<open>y\<close> of length \<open>n\<close> (in particular labels in
  \<open>{-1, +1}\<close>) and \<open>w\<close> of length \<open>p\<close>, a call of \<open>logistic_regression\<close> with iteration
  count \<open>k\<close> raises nothing, performs the assignment
  \<open>w \<leftarrow> w - (((1 / (1 + exp(-y \<odot> (Xw)))) - 1) \<odot> y)\<^sup>tX\<close> exactly \<open>k\<close> times and returns \<open>w\<close>.
\<close>

theorem logistic_regression_k_updates:
  "shapes_agree h X y w \<Longrightarrow>
     logistic_regression h y X w k = Inr (w, (lr_assign y X w ^^ nat k) h) \<and>
     (y \<noteq> w \<longrightarrow>
        logistic_regression h y X w k =
          Inr (w, h\<lparr>arrays1 := (arrays1 h)
                 (w := (lr_update (arrays2 h X) (arrays1 h y) ^^ nat k) (arrays1 h w))\<rparr>))"
  by (simp add: logistic_regression_def logistic_loop_funpow lr_assign_funpow_distinct)


theorem gradient_k_updates_witness:
  "shapes_agree example_heap 0 0 1 \<and> (0::nat) \<noteq> 1 \<and>
   gradient example_heap 0 0 1 (1 / 10) 2 =
     Inr (1, example_heap\<lparr>arrays1 := (arrays1 example_heap)(1 := [- 3 / 20])\<rparr>)"
proof -
  have sh: "shapes_agree example_heap 0 0 1"
    by (simp add: shapes_agree_def example_heap_def)
  have v: "(gd_update (arrays2 example_heap 0) (arrays1 example_heap 0) (1 / 10) ^^ nat 2)
          (arrays1 example_heap 1) = [- 3 / 20]"
    by (simp add: example_heap_def gd_update_def vec_minus_def mat_vec_def matT_vec_def
        elem_def eval_nat_numeral upt_rec)
  from gradient_k_updates [OF sh]
  have "(0::nat) \<noteq> 1 \<longrightarrow> gradient example_heap 0 0 1 (1 / 10) 2 =
      Inr (1, example_heap\<lparr>arrays1 := (arrays1 example_heap)
        (1 := (gd_update (arrays2 example_heap 0) (arrays1 example_heap 0) (1 / 10) ^^ nat 2)
                (arrays1 example_heap 1))\<rparr>)"
    by (rule conjunct2)
  then have "gradient example_heap 0 0 1 (1 / 10) 2 =
      Inr (1, example_heap\<lparr>arrays1 := (arrays1 example_heap)(1 := [- 3 / 20])\<rparr>)"
    unfolding v by simp
  with sh show ?thesis
    by simp
qed

theorem logistic_regression_k_updates_witness:
  "shapes_agree example_heap 0 0 1 \<and> (0::nat) \<noteq> 1 \<and>
   logistic_regression example_heap 0 0 1 1 =
     Inr (1, example_heap\<lparr>arrays1 := (arrays1 example_heap)(1 := [- 1 / 2])\<rparr>)"
proof -
  have sh: "shapes_agree example_heap 0 0 1"
    by (simp add: shapes_agree_def example_heap_def)
  have v: "(lr_update (arrays2 example_heap 0) (arrays1 example_heap 0) ^^ nat 1)
          (arrays1 example_heap 1) = [- 1 / 2]"
    by (simp add: example_heap_def lr_update_def vec_minus_def hadamard_def mat_vec_def
        matT_vec_def elem_def eval_nat_numeral upt_rec)
  from logistic_regression_k_updates [OF sh]
  have "(0::nat) \<noteq> 1 \<longrightarrow> logistic_regression example_heap 0 0 1 1 =
      Inr (1, example_heap\<lparr>arrays1 := (arrays1 example_heap)
        (1 := (lr_update (arrays2 example_heap 0) (arrays1 example_heap 0) ^^ nat 1)
                (arrays1 example_heap 1))\<rparr>)"
    by (rule conjunct2)
  then have "logistic_regression example_heap 0 0 1 1 =
      Inr (1, example_heap\<lparr>arrays1 := (arrays1 example_heap)(1 := [- 1 / 2])\<rparr>)"
    unfolding v by simp
  with sh show ?thesis
    by simp
qed




lemma float64_max_ge_4: "4 \<le> float64_max"
proof -
  have a: "(1::real) \<le> 2 - 1 / 2 ^ 52" by simp
  have b: "(2::real) ^ 2 \<le> 2 ^ 1023" by (rule power_increasing) simp_all
  have "(4::real) = 1 * 2 ^ 2" by simp
  also from a b have "\<dots> \<le> (2 - 1 / 2 ^ 52) * 2 ^ 1023"
    by (intro mult_mono) simp_all
  finally show ?thesis unfolding float64_max_def .
qed





text \<open>
  The hypothesis \<open>no_overflow\<close> excludes inputs such as \<open>huge_heap\<close>: all its numbers are
  finite and the shapes agree, but the product \<open>float64_max * 2\<close> in \<open>Xw\<close> is not finite.
\<close>

lemma huge_heap_overflows:
  "shapes_agree huge_heap 0 0 1 \<and> \<not> no_overflow huge_heap 0 0 1"
proof -
  have e: "arrays2 huge_heap 0 = \<lparr>shape0 = 1, shape1 = 1, buf = [float64_max]\<rparr>"
    "arrays1 huge_heap 0 = [0]" "arrays1 huge_heap 1 = [2]"
    by (simp_all add: huge_heap_def)
  have p: "0 < float64_max"
    using float64_max_ge_4 by simp
  have "\<not> (\<Sum>j<shape1 (arrays2 huge_heap 0).
          \<bar>elem (arrays2 huge_heap 0) 0 j * arrays1 huge_heap 1 ! j\<bar>) \<le> float64_max"
    unfolding e using p by (simp add: elem_def)
  then have "\<not> no_overflow huge_heap 0 0 1"
    unfolding no_overflow_def Let_def by (simp add: e)
  moreover have "shapes_agree huge_heap 0 0 1"
    unfolding shapes_agree_def e by simp
  ultimately show ?thesis by simp
qed













end
